theory Spec2Isabelle
  imports Complex_Main
begin

section \<open>Values\<close>

text \<open>
  A JavaScript \<^verbatim>\<open>number\<close> that holds a distance, a speed or a coordinate is a
  \<^typ>\<open>real\<close>: the development reasons about finite values and exact sums, not about
  the rounding of doubles. A \<^verbatim>\<open>Date\<close> and the result of \<^verbatim>\<open>Date.now()\<close> are
  milliseconds since the epoch, an \<^typ>\<open>int\<close>. A field that may be \<^verbatim>\<open>null\<close> or
  \<^verbatim>\<open>undefined\<close> is an \<^typ>\<open>'a option\<close>.
\<close>

type_synonym date = int

datatype error = Error string | TypeError string

datatype console_entry =
    ConsoleLog string
  | ConsoleWarn string
  | ConsoleWarnError error
  | ConsoleError string error

text \<open>\<^verbatim>\<open>{ latitude, longitude }\<close>, and \<^verbatim>\<open>location.coords\<close> with the fields the callback reads.\<close>

record position =
  latitude :: real
  longitude :: real

record coords = position +
  speed :: "real option"

section \<open>The geodesic library\<close>

text \<open>
  \<^verbatim>\<open>Geodesic.WGS84.Inverse(lat1, lon1, lat2, lon2)\<close> belongs to the package
  \<^verbatim>\<open>geographiclib\<close>, not to this repository: it is a parameter of everything below,
  taken at its declared type (it returns an object whose field \<^verbatim>\<open>s12\<close> is optional).
  Only \<^verbatim>\<open>s12\<close> is read.
\<close>

datatype s12_value = S12_undefined | S12_null | S12_number real

type_synonym inverse = "real \<Rightarrow> real \<Rightarrow> real \<Rightarrow> real \<Rightarrow> s12_value"

text \<open>\<^verbatim>\<open>return result.s12 ?? 0\<close>\<close>

definition calculateDistanceGeodesic :: "inverse \<Rightarrow> real \<Rightarrow> real \<Rightarrow> real \<Rightarrow> real \<Rightarrow> real" where
  "calculateDistanceGeodesic Inverse lat1 lon1 lat2 lon2 =
     (let result_s12 = Inverse lat1 lon1 lat2 lon2 in
      case result_s12 of
        S12_undefined \<Rightarrow> 0
      | S12_null \<Rightarrow> 0
      | S12_number d \<Rightarrow> d)"

text \<open>
  A stand-in for the library, for evaluating the program at concrete inputs: the length in
  metres of the meridian arc between two latitudes close to the equator, where one degree
  of latitude is 110574 m. It is meant for points of one longitude.
\<close>

definition meridian_Inverse :: inverse where
  "meridian_Inverse lat1 lon1 lat2 lon2 = S12_number (110574 * \<bar>lat2 - lat1\<bar>)"

text \<open>A library that answers without \<^verbatim>\<open>s12\<close>.\<close>

definition silent_Inverse :: inverse where
  "silent_Inverse lat1 lon1 lat2 lon2 = S12_undefined"

section \<open>The cloud client (LocationService)\<close>

datatype travel_mode = Car | Truck | Walking

record device_position_update =
  DeviceId :: string
  Position :: "real list"
  SampleTime :: date
  Accuracy :: "real option"

text \<open>The commands handed to \<^verbatim>\<open>locationClient.send\<close>, with the fields the code sets, in its order.\<close>

datatype command =
    BatchUpdateDevicePositionCommand string "device_position_update list"
  | SearchPlaceIndexForTextCommand string string nat
  | SearchPlaceIndexForPositionCommand string "real list" nat
  | CalculateRouteCommand string "real list" "real list" travel_mode bool string
  | GetDevicePositionHistoryCommand string string date date

datatype batch_update_output = BatchUpdateDevicePositionOutput "string list"

record place_geometry =
  Point :: "real list option"

record place =
  Geometry :: "place_geometry option"
  Label :: "string option"
  Country :: "string option"
  Region :: "string option"
  Municipality :: "string option"

record search_result =
  Place :: "place option"

record search_output =
  Results :: "search_result list option"

record route_summary =
  Distance :: "real option"
  DurationSeconds :: "real option"

record leg_geometry =
  LineString :: "real list list option"

record leg =
  leg_Geometry :: "leg_geometry option"

record route_output =
  Summary :: "route_summary option"
  Legs :: "leg list option"

record device_position =
  pos_Position :: "real list option"
  pos_SampleTime :: "date option"
  pos_Accuracy :: "real option"

record history_output =
  DevicePositions :: "device_position list option"

text \<open>
  The SDK's \<^verbatim>\<open>send\<close> is typed by its command: one field for each kind of answer. Each
  takes the command and either rejects (\<open>Inl\<close>) or resolves (\<open>Inr\<close>).
\<close>

record location_client =
  send_batch_update :: "command \<Rightarrow> error + batch_update_output"
  send_search :: "command \<Rightarrow> error + search_output"
  send_route :: "command \<Rightarrow> error + route_output"
  send_history :: "command \<Rightarrow> error + history_output"

record location_service =
  region :: string
  identityPoolId :: string
  trackerName :: string
  mapName :: string
  placeIndexName :: string
  routeCalculatorName :: string
  locationClient :: "location_client option"
  deviceId :: string

text \<open>
  What the program does to the world outside its own state: the console, the commands
  handed to the client's \<^verbatim>\<open>send\<close>, the alerts shown, and the rejections of promises
  that nobody awaits.
\<close>

record io =
  console :: "console_entry list"
  sent :: "command list"
  alerts :: "(string \<times> string) list"
  unhandled :: "error list"

definition console_out :: "console_entry \<Rightarrow> io \<Rightarrow> io" where
  "console_out e w = w\<lparr>console := console w @ [e]\<rparr>"

definition hand_to_send :: "command \<Rightarrow> io \<Rightarrow> io" where
  "hand_to_send c w = w\<lparr>sent := sent w @ [c]\<rparr>"

definition alert :: "string \<Rightarrow> string \<Rightarrow> io \<Rightarrow> io" where
  "alert title msg w = w\<lparr>alerts := alerts w @ [(title, msg)]\<rparr>"

text \<open>\<^verbatim>\<open>xs?.[i]\<close> on an array: \<^verbatim>\<open>undefined\<close> out of range.\<close>

definition at_index :: "'a list \<Rightarrow> nat \<Rightarrow> 'a option" where
  "at_index xs i = (if i < length xs then Some (xs ! i) else None)"

text \<open>
  \<^verbatim>\<open>trackPosition(latitude, longitude, accuracy = null, timestamp = new Date())\<close>. The
  argument \<open>now\<close> is the clock when the call is made; an absent \<open>timestamp\<close> takes it.
  The result is the promise's outcome: \<open>Inl\<close> rejected, \<open>Inr None\<close> resolved with
  \<^verbatim>\<open>undefined\<close>, \<open>Inr (Some r)\<close> resolved with the response.
\<close>

definition trackPosition ::
  "location_service \<Rightarrow> date \<Rightarrow> real \<Rightarrow> real \<Rightarrow> real option \<Rightarrow> date option \<Rightarrow> io
     \<Rightarrow> (error + batch_update_output option) \<times> io" where
  "trackPosition svc now lat lon accuracy timestamp w =
     (case locationClient svc of
        None \<Rightarrow> (Inr None, console_out (ConsoleWarn ''Location client not initialized'') w)
      | Some client \<Rightarrow>
          (let cmd = BatchUpdateDevicePositionCommand (trackerName svc)
                 [\<lparr>DeviceId = deviceId svc,
                   Position = [lon, lat],
                   SampleTime = (case timestamp of None \<Rightarrow> now | Some t \<Rightarrow> t),
                   Accuracy = (case accuracy of
                                 None \<Rightarrow> None
                               | Some a \<Rightarrow> if a = 0 then None else Some a)\<rparr>];
               w1 = hand_to_send cmd w
           in case send_batch_update client cmd of
                Inr response \<Rightarrow>
                  (Inr (Some response), console_out (ConsoleLog ''Position tracked successfully:'') w1)
              | Inl err \<Rightarrow>
                  (Inl err, console_out (ConsoleError ''Failed to track position:'' err) w1)))"

record geocode_result =
  geo_latitude :: "real option"
  geo_longitude :: "real option"
  geo_address :: "string option"

definition geocode ::
  "location_service \<Rightarrow> string \<Rightarrow> io \<Rightarrow> (error + geocode_result option) \<times> io" where
  "geocode svc address w =
     (case locationClient svc of
        None \<Rightarrow> (Inl (Error ''Location client not initialized''), w)
      | Some client \<Rightarrow>
          (let cmd = SearchPlaceIndexForTextCommand (placeIndexName svc) address 1;
               w1 = hand_to_send cmd w
           in case send_search client cmd of
                Inr response \<Rightarrow>
                  (case Results response of
                     Some (r # rs) \<Rightarrow>
                       (let pt = Option.bind (Option.bind (Place r) Geometry) Point in
                        (Inr (Some \<lparr>geo_latitude = Option.bind pt (\<lambda>p. at_index p 1),
                                    geo_longitude = Option.bind pt (\<lambda>p. at_index p 0),
                                    geo_address = Option.bind (Place r) Label\<rparr>), w1))
                   | _ \<Rightarrow> (Inr None, w1))
              | Inl err \<Rightarrow> (Inl err, console_out (ConsoleError ''Geocoding failed:'' err) w1)))"

record reverse_geocode_result =
  rev_address :: "string option"
  rev_country :: "string option"
  rev_region :: "string option"
  rev_municipality :: "string option"

definition reverseGeocode ::
  "location_service \<Rightarrow> real \<Rightarrow> real \<Rightarrow> io \<Rightarrow> (error + reverse_geocode_result option) \<times> io" where
  "reverseGeocode svc lat lon w =
     (case locationClient svc of
        None \<Rightarrow> (Inl (Error ''Location client not initialized''), w)
      | Some client \<Rightarrow>
          (let cmd = SearchPlaceIndexForPositionCommand (placeIndexName svc) [lon, lat] 1;
               w1 = hand_to_send cmd w
           in case send_search client cmd of
                Inr response \<Rightarrow>
                  (case Results response of
                     Some (r # rs) \<Rightarrow>
                       (Inr (Some \<lparr>rev_address = Option.bind (Place r) Label,
                                   rev_country = Option.bind (Place r) Country,
                                   rev_region = Option.bind (Place r) Region,
                                   rev_municipality = Option.bind (Place r) Municipality\<rparr>), w1)
                   | _ \<Rightarrow> (Inr None, w1))
              | Inl err \<Rightarrow>
                  (Inl err, console_out (ConsoleError ''Reverse geocoding failed:'' err) w1)))"

record route_result =
  route_distance :: "real option"
  route_duration :: "real option"
  route_geometry :: "real list list option"

text \<open>
  \<^verbatim>\<open>response.Legs?.[0].Geometry?.LineString\<close>: with \<^verbatim>\<open>Legs\<close> absent the chain is
  \<^verbatim>\<open>undefined\<close>; with \<^verbatim>\<open>Legs\<close> an empty array, \<^verbatim>\<open>.Geometry\<close> is read from
  \<^verbatim>\<open>undefined\<close>, which throws inside the \<^verbatim>\<open>try\<close>. An absent \<open>travelMode\<close> is
  \<^verbatim>\<open>'Car'\<close>.
\<close>

definition calculateRoute ::
  "location_service \<Rightarrow> real \<Rightarrow> real \<Rightarrow> real \<Rightarrow> real \<Rightarrow> travel_mode option \<Rightarrow> io
     \<Rightarrow> (error + route_result) \<times> io" where
  "calculateRoute svc startLat startLng endLat endLng travelMode w =
     (case locationClient svc of
        None \<Rightarrow> (Inl (Error ''Location client not initialized''), w)
      | Some client \<Rightarrow>
          (let cmd = CalculateRouteCommand (routeCalculatorName svc)
                       [startLng, startLat] [endLng, endLat]
                       (case travelMode of None \<Rightarrow> Car | Some m \<Rightarrow> m) True ''Kilometers'';
               w1 = hand_to_send cmd w;
               failed = (\<lambda>err. (Inl err, console_out (ConsoleError ''Route calculation failed:'' err) w1))
           in case send_route client cmd of
                Inr response \<Rightarrow>
                  (case (case Legs response of
                           None \<Rightarrow> Inr None
                         | Some [] \<Rightarrow> Inl (TypeError ''Cannot read properties of undefined'')
                         | Some (l # ls) \<Rightarrow> Inr (Option.bind (leg_Geometry l) LineString)) of
                     Inr g \<Rightarrow>
                       (Inr \<lparr>route_distance = Option.bind (Summary response) Distance,
                             route_duration = Option.bind (Summary response) DurationSeconds,
                             route_geometry = g\<rparr>, w1)
                   | Inl err \<Rightarrow> failed err)
              | Inl err \<Rightarrow> failed err))"

record history_entry =
  hist_latitude :: "real option"
  hist_longitude :: "real option"
  hist_timestamp :: "date option"
  hist_accuracy :: "real option"

definition getDevicePositionHistory ::
  "location_service \<Rightarrow> date \<Rightarrow> date \<Rightarrow> io \<Rightarrow> (error + history_entry list option) \<times> io" where
  "getDevicePositionHistory svc startTime endTime w =
     (case locationClient svc of
        None \<Rightarrow> (Inl (Error ''Location client not initialized''), w)
      | Some client \<Rightarrow>
          (let cmd = GetDevicePositionHistoryCommand (trackerName svc) (deviceId svc) startTime endTime;
               w1 = hand_to_send cmd w
           in case send_history client cmd of
                Inr response \<Rightarrow>
                  (Inr (map_option
                         (map (\<lambda>pos. \<lparr>hist_latitude = Option.bind (pos_Position pos) (\<lambda>p. at_index p 1),
                                      hist_longitude = Option.bind (pos_Position pos) (\<lambda>p. at_index p 0),
                                      hist_timestamp = pos_SampleTime pos,
                                      hist_accuracy = pos_Accuracy pos\<rparr>))
                         (DevicePositions response)), w1)
              | Inl err \<Rightarrow>
                  (Inl err, console_out (ConsoleError ''Failed to get position history:'' err) w1)))"

section \<open>The tracking screen (App)\<close>

text \<open>
  The component's state: the \<^verbatim>\<open>useState\<close> cells and the \<^verbatim>\<open>useRef\<close> cells. A held
  subscription or interval handle is \<open>True\<close>, \<^verbatim>\<open>null\<close> is \<open>False\<close>. Every setter
  of a callback is applied when the callback has run; \<^verbatim>\<open>setTotalDistance\<close> and the
  second \<^verbatim>\<open>setRouteCoordinates\<close> are given updater functions, so they act on the
  latest value.
\<close>

record app =
  isTracking :: bool
  totalDistance :: real
  currentSpeed :: real
  duration :: int
  currentPosition :: "position option"
  routeCoordinates :: "position list"
  mapZoom :: real
  locationSubscription :: bool
  startTimeRef :: "date option"
  durationIntervalRef :: bool
  lastPositionRef :: "position option"

text \<open>The state of the first render.\<close>

definition initial_app :: app where
  "initial_app =
     \<lparr>isTracking = False, totalDistance = 0, currentSpeed = 0, duration = 0,
      currentPosition = None, routeCoordinates = [], mapZoom = 1 / 100,
      locationSubscription = False, startTimeRef = None, durationIntervalRef = False,
      lastPositionRef = None\<rparr>"

definition empty_io :: io where
  "empty_io = \<lparr>console = [], sent = [], alerts = [], unhandled = []\<rparr>"

text \<open>
  \<^verbatim>\<open>requestLocationPermission\<close>: the argument is what
  \<^verbatim>\<open>Location.requestForegroundPermissionsAsync()\<close> does, rejecting or resolving with a
  status.
\<close>

definition requestLocationPermission :: "error + string \<Rightarrow> io \<Rightarrow> bool \<times> io" where
  "requestLocationPermission asked w =
     (case asked of
        Inr status \<Rightarrow> (status = ''granted'', w)
      | Inl err \<Rightarrow> (False, console_out (ConsoleWarnError err) w))"

text \<open>\<^verbatim>\<open>const newPosition = { latitude, longitude }\<close>\<close>

definition newPosition :: "coords \<Rightarrow> position" where
  "newPosition c = \<lparr>latitude = latitude c, longitude = longitude c\<rparr>"

text \<open>
  The body of the callback given to \<^verbatim>\<open>Location.watchPositionAsync\<close>. \<open>now\<close> is the
  clock when it runs. The promise of \<^verbatim>\<open>trackPosition\<close> is dropped: a rejection is
  handled by nobody.
\<close>

definition onLocation ::
  "inverse \<Rightarrow> location_service \<Rightarrow> date \<Rightarrow> coords \<Rightarrow> app \<times> io \<Rightarrow> app \<times> io" where
  "onLocation Inverse svc now c s =
     (let a = fst s; w = snd s;
          newPos = newPosition c;
          a1 = a\<lparr>currentPosition := Some newPos,
                 currentSpeed := (case speed c of None \<Rightarrow> 0 | Some v \<Rightarrow> v)\<rparr>
      in case lastPositionRef a1 of
           None \<Rightarrow> (a1\<lparr>lastPositionRef := Some newPos, routeCoordinates := [newPos]\<rparr>, w)
         | Some lastPosition \<Rightarrow>
             (let distance = calculateDistanceGeodesic Inverse
                    (latitude lastPosition) (longitude lastPosition) (latitude c) (longitude c);
                  a2 = (if distance > 3
                        then a1\<lparr>totalDistance := totalDistance a1 + distance,
                                routeCoordinates := routeCoordinates a1 @ [newPos]\<rparr>
                        else a1);
                  a3 = a2\<lparr>lastPositionRef := Some newPos\<rparr>;
                  tracked = trackPosition svc now (latitude c) (longitude c) None None w
              in (a3, case fst tracked of
                        Inl err \<Rightarrow> (snd tracked)\<lparr>unhandled := unhandled (snd tracked) @ [err]\<rparr>
                      | Inr response \<Rightarrow> snd tracked)))"

text \<open>The interval callback: \<^verbatim>\<open>Math.floor((Date.now() - (startTimeRef.current ?? 0)) / 1000)\<close>.\<close>

definition onInterval :: "date \<Rightarrow> app \<Rightarrow> app" where
  "onInterval now a =
     a\<lparr>duration := (now - (case startTimeRef a of None \<Rightarrow> 0 | Some t \<Rightarrow> t)) div 1000\<rparr>"

text \<open>
  \<^verbatim>\<open>startTracking\<close>: \<open>asked\<close> is the answer to the permission request, \<open>watched\<close>
  what \<^verbatim>\<open>Location.watchPositionAsync\<close> does (it rejects, or resolves with a
  subscription), \<open>now\<close> the clock.
\<close>

definition startTracking :: "error + string \<Rightarrow> error + unit \<Rightarrow> date \<Rightarrow> app \<times> io \<Rightarrow> app \<times> io" where
  "startTracking asked watched now s =
     (let a = fst s;
          permission = requestLocationPermission asked (snd s);
          w = snd permission
      in if \<not> fst permission
         then (a, alert ''Permission Denied''
                    ''Location permission is required to track your movement.'' w)
         else
           (let a1 = a\<lparr>isTracking := True, totalDistance := 0, duration := 0,
                       routeCoordinates := [], lastPositionRef := None,
                       startTimeRef := Some now, durationIntervalRef := True\<rparr>
            in case watched of
                 Inr subscription \<Rightarrow> (a1\<lparr>locationSubscription := True\<rparr>, w)
               | Inl err \<Rightarrow>
                   (a1, alert ''Location Error''
                          ''Failed to get location. Please check your GPS settings.''
                          (console_out (ConsoleError ''Location error:'' err) w))))"

definition stopTracking :: "app \<Rightarrow> app" where
  "stopTracking a =
     (let a1 = a\<lparr>isTracking := False\<rparr>;
          a2 = (if locationSubscription a1 then a1\<lparr>locationSubscription := False\<rparr> else a1);
          a3 = (if durationIntervalRef a2 then a2\<lparr>durationIntervalRef := False\<rparr> else a2)
      in a3)"

definition resetTracking :: "app \<Rightarrow> app" where
  "resetTracking a =
     (stopTracking a)\<lparr>totalDistance := 0, currentSpeed := 0, duration := 0,
                       routeCoordinates := [], lastPositionRef := None\<rparr>"

subsection \<open>A session\<close>

text \<open>
  What reaches the screen between \<^verbatim>\<open>startTracking\<close> and \<^verbatim>\<open>stopTracking\<close>: location
  updates and ticks of the interval, each with the clock of its moment, handled one
  after the other on the one UI thread.
\<close>

datatype event = LocationUpdate coords date | IntervalTick date

fun handle :: "inverse \<Rightarrow> location_service \<Rightarrow> app \<times> io \<Rightarrow> event \<Rightarrow> app \<times> io" where
  "handle Inverse svc s (LocationUpdate c now) = onLocation Inverse svc now c s"
| "handle Inverse svc s (IntervalTick now) = (onInterval now (fst s), snd s)"

definition session :: "inverse \<Rightarrow> location_service \<Rightarrow> event list \<Rightarrow> app \<times> io \<Rightarrow> app \<times> io" where
  "session Inverse svc evs s = foldl (handle Inverse svc) s evs"

text \<open>A session that has begun: permission granted, the clock at \<open>t0\<close>.\<close>

definition begun :: "error + unit \<Rightarrow> date \<Rightarrow> app \<times> io \<Rightarrow> app \<times> io" where
  "begun watched t0 s = startTracking (Inr ''granted'') watched t0 s"

text \<open>The positions of the location updates among the events, in order.\<close>

fun samples :: "event list \<Rightarrow> position list" where
  "samples [] = []"
| "samples (LocationUpdate c now # evs) = newPosition c # samples evs"
| "samples (IntervalTick now # evs) = samples evs"

subsection \<open>The odometer in the words of the specification\<close>

definition geodesic :: "inverse \<Rightarrow> position \<Rightarrow> position \<Rightarrow> real" where
  "geodesic Inverse p q =
     calculateDistanceGeodesic Inverse (latitude p) (longitude p) (latitude q) (longitude q)"

text \<open>Consecutive points of a sequence.\<close>

fun hops :: "'a list \<Rightarrow> ('a \<times> 'a) list" where
  "hops (p # q # ps) = (p, q) # hops (q # ps)"
| "hops ps = []"

text \<open>The sum of the pairwise geodesic distances between consecutive points of a route.\<close>

definition route_length :: "inverse \<Rightarrow> position list \<Rightarrow> real" where
  "route_length Inverse route = sum_list (map (\<lambda>h. geodesic Inverse (fst h) (snd h)) (hops route))"

text \<open>
  The hops between consecutive location updates that exceed the noise threshold, their
  sum, and the first update followed by the end points of those hops.
\<close>

definition counted_hops :: "inverse \<Rightarrow> position list \<Rightarrow> (position \<times> position) list" where
  "counted_hops Inverse ps = filter (\<lambda>h. geodesic Inverse (fst h) (snd h) > 3) (hops ps)"

definition counted_length :: "inverse \<Rightarrow> position list \<Rightarrow> real" where
  "counted_length Inverse ps =
     sum_list (map (\<lambda>h. geodesic Inverse (fst h) (snd h)) (counted_hops Inverse ps))"

definition counted_route :: "inverse \<Rightarrow> position list \<Rightarrow> position list" where
  "counted_route Inverse ps =
     (case ps of [] \<Rightarrow> [] | p # qs \<Rightarrow> p # map snd (counted_hops Inverse ps))"

text \<open>
  The positions that the commands handed to the client carry, \<^verbatim>\<open>[lng, lat]\<close> read
  back as a position.
\<close>

fun carried :: "command \<Rightarrow> position list" where
  "carried (BatchUpdateDevicePositionCommand tracker ups) =
     concat (map (\<lambda>u. case Position u of
                          [lon, lat] \<Rightarrow> [\<lparr>latitude = lat, longitude = lon\<rparr>]
                        | _ \<Rightarrow> []) ups)"
| "carried c = []"

definition forwarded :: "io \<Rightarrow> position list" where
  "forwarded w = concat (map carried (sent w))"

subsection \<open>Concrete inputs\<close>

text \<open>Three fixes on the meridian of Greenwich, about 2.2 m and then 4.4 m further north.\<close>

definition fix_a :: coords where
  "fix_a = \<lparr>latitude = 0, longitude = 0, speed = None\<rparr>"

definition fix_b :: coords where
  "fix_b = \<lparr>latitude = 2 / 100000, longitude = 0, speed = Some 1\<rparr>"

definition fix_c :: coords where
  "fix_c = \<lparr>latitude = 6 / 100000, longitude = 0, speed = Some 1\<rparr>"

text \<open>A fix at Tokyo station, the map's initial region.\<close>

definition fix_tokyo :: coords where
  "fix_tokyo = \<lparr>latitude = 356812 / 10000, longitude = 1397671 / 10000, speed = Some 2\<rparr>"

definition stroll :: "event list" where
  "stroll = [LocationUpdate fix_a 1000, IntervalTick 1001, LocationUpdate fix_b 2000,
             LocationUpdate fix_c 3000]"

definition accepting_client :: location_client where
  "accepting_client =
     \<lparr>send_batch_update = (\<lambda>c. Inr (BatchUpdateDevicePositionOutput [])),
      send_search = (\<lambda>c. Inr \<lparr>Results = Some []\<rparr>),
      send_route = (\<lambda>c. Inr \<lparr>Summary = None, Legs = None\<rparr>),
      send_history = (\<lambda>c. Inr \<lparr>DevicePositions = Some []\<rparr>)\<rparr>"

definition failing_client :: location_client where
  "failing_client =
     \<lparr>send_batch_update = (\<lambda>c. Inl (Error ''Network request failed'')),
      send_search = (\<lambda>c. Inl (Error ''Network request failed'')),
      send_route = (\<lambda>c. Inl (Error ''Network request failed'')),
      send_history = (\<lambda>c. Inl (Error ''Network request failed''))\<rparr>"

definition service_with :: "location_client option \<Rightarrow> location_service" where
  "service_with client =
     \<lparr>region = ''ap-northeast-1'', identityPoolId = ''pool'', trackerName = ''tracker'',
      mapName = ''map'', placeIndexName = ''places'', routeCalculatorName = ''routes'',
      locationClient = client, deviceId = ''device_1''\<rparr>"

definition fresh :: "app \<times> io" where
  "fresh = begun (Inr ()) 0 (initial_app, empty_io)"

section \<open>Properties\<close>

subsection \<open>Auxiliary facts\<close>

lemma samples_append: "samples (xs @ ys) = samples xs @ samples ys"
  by (induction xs rule: samples.induct) simp_all

lemma hops_snoc: "ps \<noteq> [] \<Longrightarrow> hops (ps @ [q]) = hops ps @ [(last ps, q)]"
  by (induction ps rule: hops.induct) simp_all

lemma counted_hops_snoc:
  "ps \<noteq> [] \<Longrightarrow> counted_hops Inverse (ps @ [q]) =
     counted_hops Inverse ps @ (if geodesic Inverse (last ps) q > 3 then [(last ps, q)] else [])"
  by (simp add: counted_hops_def hops_snoc)

lemma counted_length_snoc:
  "ps \<noteq> [] \<Longrightarrow> counted_length Inverse (ps @ [q]) =
     (if geodesic Inverse (last ps) q > 3
      then counted_length Inverse ps + geodesic Inverse (last ps) q
      else counted_length Inverse ps)"
  by (simp add: counted_length_def counted_hops_snoc)

lemma counted_route_snoc:
  "ps \<noteq> [] \<Longrightarrow> counted_route Inverse (ps @ [q]) =
     (if geodesic Inverse (last ps) q > 3
      then counted_route Inverse ps @ [q]
      else counted_route Inverse ps)"
proof -
  assume ne: "ps \<noteq> []"
  have shape: "\<And>xs. xs \<noteq> [] \<Longrightarrow>
      counted_route Inverse xs = hd xs # map snd (counted_hops Inverse xs)"
    by (simp add: counted_route_def split: list.splits)
  from ne have "counted_route Inverse (ps @ [q]) = hd ps # map snd (counted_hops Inverse (ps @ [q]))"
    by (simp add: shape)
  with ne show ?thesis
    by (simp add: shape counted_hops_snoc)
qed

lemma counted_nil [simp]:
  "counted_length Inverse [] = 0" "counted_route Inverse [] = []"
  "counted_length Inverse [p] = 0" "counted_route Inverse [p] = [p]"
  by (simp_all add: counted_length_def counted_route_def counted_hops_def)

lemma onLocation_first:
  assumes "lastPositionRef (fst s) = None"
  shows "onLocation Inverse svc now c s =
           ((fst s)\<lparr>currentPosition := Some (newPosition c),
                    currentSpeed := (case speed c of None \<Rightarrow> 0 | Some v \<Rightarrow> v),
                    lastPositionRef := Some (newPosition c),
                    routeCoordinates := [newPosition c]\<rparr>, snd s)"
  using assms by (simp add: onLocation_def newPosition_def Let_def)

lemma onLocation_next_app:
  assumes "lastPositionRef (fst s) = Some lp"
  shows "fst (onLocation Inverse svc now c s) =
           (if geodesic Inverse lp (newPosition c) > 3
            then (fst s)\<lparr>currentPosition := Some (newPosition c),
                     currentSpeed := (case speed c of None \<Rightarrow> 0 | Some v \<Rightarrow> v),
                     totalDistance := totalDistance (fst s) + geodesic Inverse lp (newPosition c),
                     routeCoordinates := routeCoordinates (fst s) @ [newPosition c],
                     lastPositionRef := Some (newPosition c)\<rparr>
            else (fst s)\<lparr>currentPosition := Some (newPosition c),
                     currentSpeed := (case speed c of None \<Rightarrow> 0 | Some v \<Rightarrow> v),
                     lastPositionRef := Some (newPosition c)\<rparr>)"
  using assms by (simp add: onLocation_def newPosition_def geodesic_def Let_def)

lemma onLocation_next_io:
  assumes "lastPositionRef (fst s) = Some lp"
  shows "snd (onLocation Inverse svc now c s) =
           (let tracked = trackPosition svc now (latitude c) (longitude c) None None (snd s)
            in case fst tracked of
                 Inl err \<Rightarrow> (snd tracked)\<lparr>unhandled := unhandled (snd tracked) @ [err]\<rparr>
               | Inr response \<Rightarrow> snd tracked)"
  using assms by (simp add: onLocation_def Let_def)

lemma onLocation_app_independent:
  "fst (onLocation Inverse svc now c (a, w)) = fst (onLocation Inverse svc' now' c (a, w'))"
  by (simp add: onLocation_def Let_def split: option.splits)

lemma begun_app:
  "fst (begun watched t0 s) =
     (fst s)\<lparr>isTracking := True, totalDistance := 0, duration := 0, routeCoordinates := [],
             lastPositionRef := None, startTimeRef := Some t0, durationIntervalRef := True,
             locationSubscription := (case watched of Inr u \<Rightarrow> True | Inl e \<Rightarrow> locationSubscription (fst s))\<rparr>"
  by (simp add: begun_def startTracking_def requestLocationPermission_def Let_def split: sum.splits)

lemma session_snoc: "session Inverse svc (evs @ [e]) s = handle Inverse svc (session Inverse svc evs s) e"
  by (simp add: session_def)

lemma session_invariant:
  "totalDistance (fst (session Inverse svc evs (begun watched t0 s))) = counted_length Inverse (samples evs)
   \<and> routeCoordinates (fst (session Inverse svc evs (begun watched t0 s))) = counted_route Inverse (samples evs)
   \<and> lastPositionRef (fst (session Inverse svc evs (begun watched t0 s))) =
       (if samples evs = [] then None else Some (last (samples evs)))"
proof (induction evs rule: rev_induct)
  case Nil
  show ?case by (simp add: session_def begun_app)
next
  case (snoc e evs)
  let ?r = "session Inverse svc evs (begun watched t0 s)"
  show ?case
  proof (cases e)
    case (IntervalTick now)
    with snoc show ?thesis
      by (simp add: session_snoc samples_append onInterval_def)
  next
    case (LocationUpdate c now)
    have smp: "samples (evs @ [LocationUpdate c now]) = samples evs @ [newPosition c]"
      by (simp add: samples_append newPosition_def)
    show ?thesis
    proof (cases "samples evs = []")
      case True
      with snoc have "lastPositionRef (fst ?r) = None" by simp
      from onLocation_first [OF this] True snoc show ?thesis
        by (simp add: session_snoc LocationUpdate smp)
    next
      case False
      with snoc have "lastPositionRef (fst ?r) = Some (last (samples evs))" by simp
      from onLocation_next_app [OF this] False snoc show ?thesis
        by (simp add: session_snoc LocationUpdate smp counted_length_snoc counted_route_snoc)
    qed
  qed
qed



lemma handle_totalDistance_mono: "totalDistance (fst s) \<le> totalDistance (fst (handle Inverse svc s e))"
proof (cases e)
  case (IntervalTick now)
  then show ?thesis by (simp add: onInterval_def)
next
  case (LocationUpdate c now)
  show ?thesis
  proof (cases "lastPositionRef (fst s)")
    case None
    from onLocation_first [OF this] show ?thesis by (simp add: LocationUpdate)
  next
    case (Some lp)
    from onLocation_next_app [OF this] show ?thesis by (simp add: LocationUpdate)
  qed
qed

lemma session_totalDistance_mono: "totalDistance (fst s) \<le> totalDistance (fst (session Inverse svc evs s))"
proof (induction evs rule: rev_induct)
  case Nil
  show ?case by (simp add: session_def)
next
  case (snoc e evs)
  have "totalDistance (fst (session Inverse svc evs s))
          \<le> totalDistance (fst (handle Inverse svc (session Inverse svc evs s) e))"
    by (rule handle_totalDistance_mono)
  with snoc show ?case by (simp add: session_snoc)
qed

lemma trackPosition_sent:
  "sent (snd (trackPosition svc now lat lon accuracy timestamp w)) =
     sent w @ (case locationClient svc of
                 None \<Rightarrow> []
               | Some client \<Rightarrow>
                   [BatchUpdateDevicePositionCommand (trackerName svc)
                      [\<lparr>DeviceId = deviceId svc, Position = [lon, lat],
                        SampleTime = (case timestamp of None \<Rightarrow> now | Some t \<Rightarrow> t),
                        Accuracy = (case accuracy of
                                      None \<Rightarrow> None
                                    | Some a \<Rightarrow> if a = 0 then None else Some a)\<rparr>]])"
  by (simp add: trackPosition_def console_out_def hand_to_send_def Let_def
           split: option.splits sum.splits)

lemma service_with_fields:
  "locationClient (service_with client) = client"
  "trackerName (service_with client) = ''tracker''"
  "deviceId (service_with client) = ''device_1''"
  by (simp_all add: service_with_def)

lemma fix_b_fields: "latitude fix_b = 2 / 100000" "longitude fix_b = 0"
  by (simp_all add: fix_b_def)

lemmas model_defs = session_def begun_def startTracking_def requestLocationPermission_def
    onLocation_def onInterval_def calculateDistanceGeodesic_def meridian_Inverse_def
    trackPosition_def console_out_def hand_to_send_def alert_def newPosition_def Let_def

lemmas input_defs = initial_app_def empty_io_def fix_a_def fix_b_def fix_c_def stroll_def
    service_with_def fresh_def

lemmas counted_defs = counted_length_def counted_route_def counted_hops_def geodesic_def

subsection \<open>The odometer and the route\<close>

text \<open>
  C1, as it is written, fails: \<^verbatim>\<open>totalDistance\<close> is not the sum of the geodesic
  distances between consecutive points of \<^verbatim>\<open>routeCoordinates\<close>. On the stroll the
  second fix is 2.2 m from the first and is not drawn, the third is 4.4 m from the second
  and is drawn: the odometer shows 4.4 m, the route drawn is 6.6 m long.
\<close>

theorem totalDistance_is_not_route_length:
  "totalDistance (fst (session meridian_Inverse (service_with None) stroll fresh))
     \<noteq> route_length meridian_Inverse
          (routeCoordinates (fst (session meridian_Inverse (service_with None) stroll fresh)))"
  by (simp add: model_defs input_defs route_length_def geodesic_def)

text \<open>
  C1, amended: at every point of a tracking session, \<^verbatim>\<open>totalDistance\<close> is the sum of
  the geodesic distances from each location update to the one right before it (the
  reference position, replaced by every update, drawn or not), over the updates for which
  that distance exceeds the noise threshold of 3 m; and \<^verbatim>\<open>routeCoordinates\<close> is the
  first update followed by exactly those updates.
\<close>

theorem totalDistance_counts_hops_between_updates:
  "totalDistance (fst (session Inverse svc evs (begun watched t0 s)))
     = counted_length Inverse (samples evs)
   \<and> routeCoordinates (fst (session Inverse svc evs (begun watched t0 s)))
     = counted_route Inverse (samples evs)"
  using session_invariant [of Inverse svc evs watched t0 s] by simp

theorem totalDistance_counts_hops_between_updates_witness:
  "totalDistance (fst (session meridian_Inverse (service_with None) stroll fresh)) = 55287 / 12500
   \<and> routeCoordinates (fst (session meridian_Inverse (service_with None) stroll fresh))
       = [newPosition fix_a, newPosition fix_c]"
proof -
  have len: "counted_length meridian_Inverse (samples stroll) = 55287 / 12500"
    by (simp add: counted_defs model_defs input_defs)
  have rt: "counted_route meridian_Inverse (samples stroll) = [newPosition fix_a, newPosition fix_c]"
    by (simp add: counted_defs model_defs input_defs)
  from totalDistance_counts_hops_between_updates
         [of meridian_Inverse "service_with None" stroll "Inr ()" 0 "(initial_app, empty_io)"]
  show ?thesis
    unfolding fresh_def len rt .
qed

subsection \<open>Forwarding to the cloud\<close>

text \<open>
  C2, as it is written, fails: the positions forwarded are not the positions accepted into
  the route. On the stroll the first fix is drawn and not forwarded, the second is
  forwarded and not drawn.
\<close>

theorem forwarded_is_not_route:
  "forwarded (snd (session meridian_Inverse (service_with (Some accepting_client)) stroll fresh))
     \<noteq> routeCoordinates
          (fst (session meridian_Inverse (service_with (Some accepting_client)) stroll fresh))"
  by (simp add: model_defs input_defs accepting_client_def forwarded_def)

text \<open>
  C2, amended: every location update that finds a reference position (every update of a
  session after the first) is forwarded once, whether or not it exceeds the noise
  threshold: with the client initialized, exactly one command is handed to it, carrying
  the tracker name, the device identifier, the position as \<^verbatim>\<open>[longitude, latitude]\<close>
  and the time of the call; with no client, nothing is handed over.
\<close>

theorem later_update_forwarded_once:
  assumes "lastPositionRef (fst s) = Some lp"
  shows "sent (snd (onLocation Inverse svc now c s)) =
           sent (snd s) @
             (case locationClient svc of
                None \<Rightarrow> []
              | Some client \<Rightarrow>
                  [BatchUpdateDevicePositionCommand (trackerName svc)
                     [\<lparr>DeviceId = deviceId svc, Position = [longitude c, latitude c],
                       SampleTime = now, Accuracy = None\<rparr>]])"
proof -
  let ?t = "trackPosition svc now (latitude c) (longitude c) None None (snd s)"
  have "sent (snd (onLocation Inverse svc now c s)) = sent (snd ?t)"
    by (simp add: onLocation_next_io [OF assms] Let_def split: sum.splits)
  then show ?thesis by (simp add: trackPosition_sent split: option.splits)
qed

theorem later_update_forwarded_once_witness:
  "lastPositionRef (fst (session meridian_Inverse (service_with (Some accepting_client))
       [LocationUpdate fix_a 1000] fresh)) = Some (newPosition fix_a)
   \<and> sent (snd (onLocation meridian_Inverse (service_with (Some accepting_client)) 2000 fix_b
       (session meridian_Inverse (service_with (Some accepting_client)) [LocationUpdate fix_a 1000] fresh)))
     = [BatchUpdateDevicePositionCommand ''tracker''
          [\<lparr>DeviceId = ''device_1'', Position = [0, 2 / 100000], SampleTime = 2000, Accuracy = None\<rparr>]]
   \<and> routeCoordinates (fst (onLocation meridian_Inverse (service_with (Some accepting_client)) 2000 fix_b
       (session meridian_Inverse (service_with (Some accepting_client)) [LocationUpdate fix_a 1000] fresh)))
     = [newPosition fix_a]"
proof -
  let ?s = "session meridian_Inverse (service_with (Some accepting_client)) [LocationUpdate fix_a 1000] fresh"
  have h: "lastPositionRef (fst ?s) = Some (newPosition fix_a)"
    by (simp add: model_defs input_defs accepting_client_def)
  have s0: "sent (snd ?s) = []"
    by (simp add: model_defs input_defs accepting_client_def)
  have r: "routeCoordinates (fst (onLocation meridian_Inverse (service_with (Some accepting_client)) 2000 fix_b ?s))
     = [newPosition fix_a]"
    by (simp add: model_defs input_defs accepting_client_def)
  from later_update_forwarded_once [OF h, of meridian_Inverse "service_with (Some accepting_client)" 2000 fix_b]
  have "sent (snd (onLocation meridian_Inverse (service_with (Some accepting_client)) 2000 fix_b ?s))
     = [BatchUpdateDevicePositionCommand ''tracker''
          [\<lparr>DeviceId = ''device_1'', Position = [0, 2 / 100000], SampleTime = 2000, Accuracy = None\<rparr>]]"
    by (simp add: s0 service_with_fields fix_b_fields)
  with h r show ?thesis by blast
qed

subsection \<open>The noise threshold\<close>

text \<open>
  C3: an update whose geodesic distance from the last recorded position (the reference
  position \<^verbatim>\<open>lastPositionRef\<close>) is below the noise threshold leaves
  \<^verbatim>\<open>totalDistance\<close> as it was and appends nothing to \<^verbatim>\<open>routeCoordinates\<close>.
\<close>

theorem below_threshold_changes_nothing:
  assumes "lastPositionRef (fst s) = Some lp"
    and "geodesic Inverse lp (newPosition c) < 3"
  shows "totalDistance (fst (onLocation Inverse svc now c s)) = totalDistance (fst s)
         \<and> routeCoordinates (fst (onLocation Inverse svc now c s)) = routeCoordinates (fst s)"
  using assms(2) by (simp add: onLocation_next_app [OF assms(1)])

theorem below_threshold_changes_nothing_witness:
  "lastPositionRef (fst (session meridian_Inverse (service_with None) [LocationUpdate fix_a 1000] fresh))
     = Some (newPosition fix_a)
   \<and> geodesic meridian_Inverse (newPosition fix_a) (newPosition fix_b) < 3
   \<and> totalDistance (fst (onLocation meridian_Inverse (service_with None) 2000 fix_b
        (session meridian_Inverse (service_with None) [LocationUpdate fix_a 1000] fresh))) = 0
   \<and> routeCoordinates (fst (onLocation meridian_Inverse (service_with None) 2000 fix_b
        (session meridian_Inverse (service_with None) [LocationUpdate fix_a 1000] fresh)))
      = [newPosition fix_a]"
proof -
  let ?s = "session meridian_Inverse (service_with None) [LocationUpdate fix_a 1000] fresh"
  have h: "lastPositionRef (fst ?s) = Some (newPosition fix_a)"
    by (simp add: model_defs input_defs)
  have d: "geodesic meridian_Inverse (newPosition fix_a) (newPosition fix_b) < 3"
    by (simp add: geodesic_def model_defs input_defs)
  have t: "totalDistance (fst ?s) = 0" and r: "routeCoordinates (fst ?s) = [newPosition fix_a]"
    by (simp_all add: model_defs input_defs)
  from below_threshold_changes_nothing [OF h d, of "service_with None" 2000] h d t r
  show ?thesis by simp
qed

text \<open>
  C4: along every sequence of events handled from any state, \<^verbatim>\<open>totalDistance\<close>
  after one more event is at least what it was before it, and at every point at least
  what it was at the beginning.
\<close>

theorem totalDistance_never_decreases:
  "totalDistance (fst (session Inverse svc evs s))
     \<le> totalDistance (fst (session Inverse svc (evs @ [e]) s))
   \<and> totalDistance (fst s) \<le> totalDistance (fst (session Inverse svc evs s))"
  by (simp add: session_snoc handle_totalDistance_mono session_totalDistance_mono)

theorem totalDistance_never_decreases_witness:
  "totalDistance (fst (session meridian_Inverse (service_with None)
       [LocationUpdate fix_a 1000, LocationUpdate fix_b 2000] fresh))
     \<le> totalDistance (fst (session meridian_Inverse (service_with None)
       ([LocationUpdate fix_a 1000, LocationUpdate fix_b 2000] @ [LocationUpdate fix_c 3000]) fresh))
   \<and> totalDistance (fst (session meridian_Inverse (service_with None)
       ([LocationUpdate fix_a 1000, LocationUpdate fix_b 2000] @ [LocationUpdate fix_c 3000]) fresh))
      = 55287 / 12500"
proof -
  have v: "totalDistance (fst (session meridian_Inverse (service_with None)
       ([LocationUpdate fix_a 1000, LocationUpdate fix_b 2000] @ [LocationUpdate fix_c 3000]) fresh))
      = 55287 / 12500"
    by (simp add: model_defs input_defs)
  from totalDistance_never_decreases
         [of meridian_Inverse "service_with None" "[LocationUpdate fix_a 1000, LocationUpdate fix_b 2000]"
             fresh "LocationUpdate fix_c 3000"] v
  show ?thesis by blast
qed


subsection \<open>Reset\<close>

text \<open>
  C5: from every state of the screen, whatever its distance, duration, route, speed,
  tracking flag and reference position, \<^verbatim>\<open>resetTracking\<close> leaves \<^verbatim>\<open>isTracking\<close>
  false, \<^verbatim>\<open>totalDistance\<close>, \<^verbatim>\<open>currentSpeed\<close> and \<^verbatim>\<open>duration\<close> 0, the route
  empty and the reference position cleared; the subscription and the interval are released.
\<close>

theorem resetTracking_zero_state:
  "isTracking (resetTracking a) = False
   \<and> totalDistance (resetTracking a) = 0
   \<and> currentSpeed (resetTracking a) = 0
   \<and> duration (resetTracking a) = 0
   \<and> routeCoordinates (resetTracking a) = []
   \<and> lastPositionRef (resetTracking a) = None
   \<and> locationSubscription (resetTracking a) = False
   \<and> durationIntervalRef (resetTracking a) = False"
  by (simp add: resetTracking_def stopTracking_def Let_def)

theorem resetTracking_zero_state_witness:
  "totalDistance (fst (session meridian_Inverse (service_with None) stroll fresh)) = 55287 / 12500
   \<and> isTracking (resetTracking (fst (session meridian_Inverse (service_with None) stroll fresh))) = False
   \<and> totalDistance (resetTracking (fst (session meridian_Inverse (service_with None) stroll fresh))) = 0
   \<and> routeCoordinates (resetTracking (fst (session meridian_Inverse (service_with None) stroll fresh))) = []
   \<and> lastPositionRef (resetTracking (fst (session meridian_Inverse (service_with None) stroll fresh))) = None"
proof -
  have "totalDistance (fst (session meridian_Inverse (service_with None) stroll fresh)) = 55287 / 12500"
    by (simp add: model_defs input_defs)
  with resetTracking_zero_state [of "fst (session meridian_Inverse (service_with None) stroll fresh)"]
  show ?thesis by blast
qed

subsection \<open>A send that fails\<close>

text \<open>
  C6, as it is written, fails: \<^verbatim>\<open>trackPosition\<close> does not swallow a failed send. Its
  \<^verbatim>\<open>catch\<close> logs the error and throws it again, so the promise it returns to its
  caller is rejected.
\<close>

theorem failed_send_reaches_caller:
  "fst (trackPosition (service_with (Some failing_client)) 2000 (2 / 100000) 0 None None empty_io)
     = Inl (Error ''Network request failed'')"
  by (simp add: model_defs input_defs failing_client_def)

text \<open>
  C6, amended: when the remote send of a position sample fails, \<^verbatim>\<open>trackPosition\<close> logs
  the failure and throws it again to its caller (its promise is rejected with that
  error); the location callback neither awaits nor catches that promise, so the rejection
  stays unhandled; and the state of the screen after the callback (\<^verbatim>\<open>totalDistance\<close>,
  \<^verbatim>\<open>routeCoordinates\<close>, \<^verbatim>\<open>duration\<close> and every other cell) is the same whatever
  the service and its client do.
\<close>

theorem failed_send_logged_rethrown_state_untouched:
  assumes "locationClient svc = Some client"
    and "send_batch_update client
           (BatchUpdateDevicePositionCommand (trackerName svc)
              [\<lparr>DeviceId = deviceId svc, Position = [longitude c, latitude c], SampleTime = now,
                Accuracy = None\<rparr>]) = Inl err"
  shows "fst (trackPosition svc now (latitude c) (longitude c) None None w) = Inl err
         \<and> console (snd (trackPosition svc now (latitude c) (longitude c) None None w))
             = console w @ [ConsoleError ''Failed to track position:'' err]
         \<and> (lastPositionRef a = Some lp \<longrightarrow>
              unhandled (snd (onLocation Inverse svc now c (a, w))) = unhandled w @ [err])
         \<and> fst (onLocation Inverse svc now c (a, w)) = fst (onLocation Inverse svc' now' c (a, w'))"
proof -
  let ?t = "trackPosition svc now (latitude c) (longitude c) None None w"
  from assms have t: "?t = (Inl err, console_out (ConsoleError ''Failed to track position:'' err)
       (hand_to_send (BatchUpdateDevicePositionCommand (trackerName svc)
              [\<lparr>DeviceId = deviceId svc, Position = [longitude c, latitude c], SampleTime = now,
                Accuracy = None\<rparr>]) w))"
    by (simp add: trackPosition_def Let_def)
  have rej: "fst ?t = Inl err"
    and logged: "console (snd ?t) = console w @ [ConsoleError ''Failed to track position:'' err]"
    and unh: "unhandled (snd ?t) = unhandled w"
    by (simp_all add: t console_out_def hand_to_send_def)
  have dropped: "unhandled (snd (onLocation Inverse svc now c (a, w))) = unhandled w @ [err]"
    if "lastPositionRef a = Some lp"
  proof -
    from that have "lastPositionRef (fst (a, w)) = Some lp" by simp
    from onLocation_next_io [OF this, of Inverse svc now c] show ?thesis
      by (simp add: Let_def rej unh)
  qed
  from rej logged dropped onLocation_app_independent [of Inverse svc now c a w svc' now' w']
  show ?thesis by simp
qed

theorem failed_send_logged_rethrown_state_untouched_witness:
  "locationClient (service_with (Some failing_client)) = Some failing_client
   \<and> send_batch_update failing_client
        (BatchUpdateDevicePositionCommand (trackerName (service_with (Some failing_client)))
           [\<lparr>DeviceId = deviceId (service_with (Some failing_client)),
             Position = [longitude fix_c, latitude fix_c], SampleTime = 3000, Accuracy = None\<rparr>])
        = Inl (Error ''Network request failed'')
   \<and> fst (trackPosition (service_with (Some failing_client)) 3000 (latitude fix_c) (longitude fix_c)
            None None empty_io) = Inl (Error ''Network request failed'')
   \<and> console (snd (trackPosition (service_with (Some failing_client)) 3000 (latitude fix_c)
            (longitude fix_c) None None empty_io))
        = [ConsoleError ''Failed to track position:'' (Error ''Network request failed'')]
   \<and> unhandled (snd (onLocation meridian_Inverse (service_with (Some failing_client)) 3000 fix_c
            (initial_app\<lparr>lastPositionRef := Some (newPosition fix_b)\<rparr>, empty_io)))
        = [Error ''Network request failed'']
   \<and> fst (onLocation meridian_Inverse (service_with (Some failing_client)) 3000 fix_c
            (initial_app\<lparr>lastPositionRef := Some (newPosition fix_b)\<rparr>, empty_io))
        = fst (onLocation meridian_Inverse (service_with (Some accepting_client)) 3000 fix_c
            (initial_app\<lparr>lastPositionRef := Some (newPosition fix_b)\<rparr>, empty_io))"
proof -
  have h1: "locationClient (service_with (Some failing_client)) = Some failing_client"
    by (simp add: service_with_fields)
  have h2: "send_batch_update failing_client
        (BatchUpdateDevicePositionCommand (trackerName (service_with (Some failing_client)))
           [\<lparr>DeviceId = deviceId (service_with (Some failing_client)),
             Position = [longitude fix_c, latitude fix_c], SampleTime = 3000, Accuracy = None\<rparr>])
        = Inl (Error ''Network request failed'')"
    by (simp add: failing_client_def)
  have e: "console empty_io = []" "unhandled empty_io = []"
    by (simp_all add: empty_io_def)
  have l: "lastPositionRef (initial_app\<lparr>lastPositionRef := Some (newPosition fix_b)\<rparr>)
             = Some (newPosition fix_b)"
    by simp
  from failed_send_logged_rethrown_state_untouched
         [OF h1 h2, of empty_io "initial_app\<lparr>lastPositionRef := Some (newPosition fix_b)\<rparr>"
            "newPosition fix_b" meridian_Inverse "service_with (Some accepting_client)" 3000 empty_io]
       h1 h2 e l
  show ?thesis by simp
qed

subsection \<open>The route\<close>

text \<open>
  C7: at every point of a tracking session, handling one more event (a location update or
  a tick) leaves \<^verbatim>\<open>routeCoordinates\<close> as it was or extends it by one point at its
  end.
\<close>

theorem route_is_append_only:
  "routeCoordinates (fst (handle Inverse svc (session Inverse svc evs (begun watched t0 s)) e))
     = routeCoordinates (fst (session Inverse svc evs (begun watched t0 s)))
   \<or> (\<exists>p. routeCoordinates (fst (handle Inverse svc (session Inverse svc evs (begun watched t0 s)) e))
     = routeCoordinates (fst (session Inverse svc evs (begun watched t0 s))) @ [p])"
proof -
  let ?r = "session Inverse svc evs (begun watched t0 s)"
  note inv = session_invariant [of Inverse svc evs watched t0 s]
  show ?thesis
  proof (cases e)
    case (IntervalTick now)
    then show ?thesis by (simp add: onInterval_def)
  next
    case (LocationUpdate c now)
    show ?thesis
    proof (cases "samples evs = []")
      case True
      with inv have ref: "lastPositionRef (fst ?r) = None" and rt: "routeCoordinates (fst ?r) = []"
        by simp_all
      from onLocation_first [OF ref, of Inverse svc now c] rt show ?thesis
        by (simp add: LocationUpdate)
    next
      case False
      with inv have "lastPositionRef (fst ?r) = Some (last (samples evs))" by simp
      from onLocation_next_app [OF this, of Inverse svc now c] show ?thesis
        by (simp add: LocationUpdate)
    qed
  qed
qed

theorem route_is_append_only_witness:
  "routeCoordinates (fst (session meridian_Inverse (service_with None)
       [LocationUpdate fix_a 1000, LocationUpdate fix_b 2000] fresh)) = [newPosition fix_a]
   \<and> routeCoordinates (fst (handle meridian_Inverse (service_with None)
        (session meridian_Inverse (service_with None)
        [LocationUpdate fix_a 1000, LocationUpdate fix_b 2000] fresh) (LocationUpdate fix_c 3000)))
      = [newPosition fix_a] @ [newPosition fix_c]"
proof -
  have a: "routeCoordinates (fst (session meridian_Inverse (service_with None)
       [LocationUpdate fix_a 1000, LocationUpdate fix_b 2000] fresh)) = [newPosition fix_a]"
    by (simp add: model_defs input_defs)
  have b: "routeCoordinates (fst (handle meridian_Inverse (service_with None)
        (session meridian_Inverse (service_with None)
        [LocationUpdate fix_a 1000, LocationUpdate fix_b 2000] fresh) (LocationUpdate fix_c 3000)))
      = [newPosition fix_a, newPosition fix_c]"
    by (simp add: model_defs input_defs)
  from route_is_append_only [of meridian_Inverse "service_with None"
         "[LocationUpdate fix_a 1000, LocationUpdate fix_b 2000]" "Inr ()" 0 "(initial_app, empty_io)"
         "LocationUpdate fix_c 3000"] a b
  show ?thesis by simp
qed

text \<open>
  C8: the first location update of a session finds the reference position empty and
  \<^verbatim>\<open>totalDistance\<close> 0. The point of its own latitude and longitude becomes the only
  element of the route and the reference position, \<^verbatim>\<open>totalDistance\<close> stays 0, and nothing reaches the outside:
  no command is handed to the client, nothing is logged.
\<close>

theorem first_update_starts_route_unforwarded:
  assumes "lastPositionRef (fst s) = None"
    and "totalDistance (fst s) = 0"
  shows "routeCoordinates (fst (onLocation Inverse svc now c s))
           = [\<lparr>latitude = latitude c, longitude = longitude c\<rparr>]
         \<and> lastPositionRef (fst (onLocation Inverse svc now c s))
           = Some \<lparr>latitude = latitude c, longitude = longitude c\<rparr>
         \<and> totalDistance (fst (onLocation Inverse svc now c s)) = 0
         \<and> snd (onLocation Inverse svc now c s) = snd s"
  using assms(2) by (simp add: onLocation_first [OF assms(1)] newPosition_def)

theorem first_update_starts_route_unforwarded_witness:
  "lastPositionRef (fst fresh) = None
   \<and> totalDistance (fst fresh) = 0
   \<and> routeCoordinates (fst (onLocation meridian_Inverse (service_with (Some accepting_client))
        1000 fix_tokyo fresh))
       = [\<lparr>latitude = 356812 / 10000, longitude = 1397671 / 10000\<rparr>]
   \<and> lastPositionRef (fst (onLocation meridian_Inverse (service_with (Some accepting_client))
        1000 fix_tokyo fresh))
       = Some \<lparr>latitude = 356812 / 10000, longitude = 1397671 / 10000\<rparr>
   \<and> totalDistance (fst (onLocation meridian_Inverse (service_with (Some accepting_client))
        1000 fix_tokyo fresh)) = 0
   \<and> sent (snd (onLocation meridian_Inverse (service_with (Some accepting_client))
        1000 fix_tokyo fresh)) = []"
proof -
  have h1: "lastPositionRef (fst fresh) = None" and h2: "totalDistance (fst fresh) = 0"
    by (simp_all add: fresh_def begun_app)
  have w: "sent (snd fresh) = []"
    by (simp add: fresh_def begun_def startTracking_def requestLocationPermission_def empty_io_def Let_def)
  have c: "latitude fix_tokyo = 356812 / 10000" "longitude fix_tokyo = 1397671 / 10000"
    by (simp_all add: fix_tokyo_def)
  from first_update_starts_route_unforwarded
         [OF h1 h2, of meridian_Inverse "service_with (Some accepting_client)" 1000 fix_tokyo] h1 h2 w
  show ?thesis by (simp add: c)
qed

subsection \<open>The client that is not initialized\<close>

text \<open>
  C9: with the location client not initialized, \<^verbatim>\<open>trackPosition\<close> warns on the
  console and resolves with \<^verbatim>\<open>undefined\<close>, sending nothing, while \<^verbatim>\<open>geocode\<close>,
  \<^verbatim>\<open>reverseGeocode\<close>, \<^verbatim>\<open>calculateRoute\<close> and \<^verbatim>\<open>getDevicePositionHistory\<close>
  each fail with the error \<^verbatim>\<open>Location client not initialized\<close>.
\<close>

theorem uninitialized_client:
  assumes "locationClient svc = None"
  shows "trackPosition svc now lat lon accuracy timestamp w
           = (Inr None, console_out (ConsoleWarn ''Location client not initialized'') w)
         \<and> sent (snd (trackPosition svc now lat lon accuracy timestamp w)) = sent w
         \<and> fst (geocode svc address w) = Inl (Error ''Location client not initialized'')
         \<and> fst (reverseGeocode svc lat lon w) = Inl (Error ''Location client not initialized'')
         \<and> fst (calculateRoute svc startLat startLng endLat endLng travelMode w)
             = Inl (Error ''Location client not initialized'')
         \<and> fst (getDevicePositionHistory svc startTime endTime w)
             = Inl (Error ''Location client not initialized'')"
  using assms
  by (simp add: trackPosition_def geocode_def reverseGeocode_def calculateRoute_def
        getDevicePositionHistory_def console_out_def)

theorem uninitialized_client_witness:
  "locationClient (service_with None) = None
   \<and> trackPosition (service_with None) 1000 35 139 None None empty_io
       = (Inr None, console_out (ConsoleWarn ''Location client not initialized'') empty_io)
   \<and> sent (snd (trackPosition (service_with None) 1000 35 139 None None empty_io)) = []
   \<and> fst (geocode (service_with None) ''Tokyo'' empty_io)
       = Inl (Error ''Location client not initialized'')
   \<and> fst (reverseGeocode (service_with None) 35 139 empty_io)
       = Inl (Error ''Location client not initialized'')
   \<and> fst (calculateRoute (service_with None) 35 139 36 140 None empty_io)
       = Inl (Error ''Location client not initialized'')
   \<and> fst (getDevicePositionHistory (service_with None) 0 1000 empty_io)
       = Inl (Error ''Location client not initialized'')"
proof -
  have h: "locationClient (service_with None) = None"
    by (simp add: service_with_fields)
  have e: "sent empty_io = []"
    by (simp add: empty_io_def)
  from uninitialized_client [OF h, of 1000 35 139 None None empty_io "''Tokyo''" 35 139 36 140 None 0 1000]
       h e
  show ?thesis by (simp add: console_out_def)
qed

subsection \<open>The distance function\<close>

text \<open>
  C10: for every pair of coordinates and whatever the library answers,
  \<^verbatim>\<open>calculateDistanceGeodesic\<close> returns a number: 0 when \<^verbatim>\<open>s12\<close> is
  \<^verbatim>\<open>undefined\<close> or \<^verbatim>\<open>null\<close>, and \<^verbatim>\<open>s12\<close> itself otherwise.
\<close>

theorem calculateDistanceGeodesic_defaults_to_zero:
  "(Inverse lat1 lon1 lat2 lon2 = S12_undefined \<or> Inverse lat1 lon1 lat2 lon2 = S12_null
      \<longrightarrow> calculateDistanceGeodesic Inverse lat1 lon1 lat2 lon2 = 0)
   \<and> (\<forall>d. Inverse lat1 lon1 lat2 lon2 = S12_number d
      \<longrightarrow> calculateDistanceGeodesic Inverse lat1 lon1 lat2 lon2 = d)"
  by (auto simp add: calculateDistanceGeodesic_def)

theorem calculateDistanceGeodesic_defaults_to_zero_witness:
  "silent_Inverse 0 0 1 1 = S12_undefined
   \<and> calculateDistanceGeodesic silent_Inverse 0 0 1 1 = 0
   \<and> meridian_Inverse 0 0 (6 / 100000) 0 = S12_number (165861 / 25000)
   \<and> calculateDistanceGeodesic meridian_Inverse 0 0 (6 / 100000) 0 = 165861 / 25000"
proof -
  have u: "silent_Inverse 0 0 1 1 = S12_undefined"
    by (simp add: silent_Inverse_def)
  have n: "meridian_Inverse 0 0 (6 / 100000) 0 = S12_number (165861 / 25000)"
    by (simp add: meridian_Inverse_def)
  from calculateDistanceGeodesic_defaults_to_zero [of silent_Inverse 0 0 1 1] u
  have z: "calculateDistanceGeodesic silent_Inverse 0 0 1 1 = 0"
    by blast
  from calculateDistanceGeodesic_defaults_to_zero [of meridian_Inverse 0 0 "6 / 100000" 0] n
  have m: "calculateDistanceGeodesic meridian_Inverse 0 0 (6 / 100000) 0 = 165861 / 25000"
    by blast
  from u z n m show ?thesis by blast
qed


end
